theory Spec2Isabelle
  imports Main
begin

section \<open>Strings and characters\<close>

text \<open>
  A Python \<open>str\<close> is modelled as a \<open>string\<close> whose characters are read as the code
  points U+0000 to U+00FF, one \<open>char\<close> per code point. The three library operations the
  title normalizer relies on (\<open>str.lower\<close> and the regular-expression classes
  \<open>\w\<close> and \<open>\s\<close>) follow Python 3 on that range:
  \<^item> \<open>str.lower\<close> maps A-Z to a-z and U+00C0..U+00DE (without the multiplication sign
    U+00D7) to U+00E0..U+00FE, and leaves every other code point alone;
  \<^item> \<open>\w\<close> holds of the alphanumeric code points and the underscore;
  \<^item> \<open>\s\<close> holds of tab, newline, vertical tab, form feed, carriage return, the
    separators U+001C..U+001F, the space, U+0085 and U+00A0.
\<close>

definition str_lower_char :: "char \<Rightarrow> char" where
  "str_lower_char c =
     (let n = (of_char c :: nat)
      in if (65 \<le> n \<and> n \<le> 90) \<or> (192 \<le> n \<and> n \<le> 222 \<and> n \<noteq> 215)
         then char_of (n + 32) else c)"

definition str_lower :: "string \<Rightarrow> string" where
  "str_lower s = map str_lower_char s"

definition is_word_char :: "char \<Rightarrow> bool" where
  "is_word_char c =
     (let n = (of_char c :: nat)
      in (48 \<le> n \<and> n \<le> 57) \<or> (65 \<le> n \<and> n \<le> 90) \<or> n = 95 \<or> (97 \<le> n \<and> n \<le> 122)
         \<or> n = 170 \<or> n = 178 \<or> n = 179 \<or> n = 181 \<or> n = 185 \<or> n = 186
         \<or> (188 \<le> n \<and> n \<le> 190) \<or> (192 \<le> n \<and> n \<le> 214)
         \<or> (216 \<le> n \<and> n \<le> 246) \<or> 248 \<le> n)"

definition is_space_char :: "char \<Rightarrow> bool" where
  "is_space_char c =
     (let n = (of_char c :: nat)
      in (9 \<le> n \<and> n \<le> 13) \<or> (28 \<le> n \<and> n \<le> 32) \<or> n = 133 \<or> n = 160)"

section \<open>Regular expressions of the normalizer\<close>

text \<open>
  The two patterns of \<open>clean_title_input\<close> are \<open>[^\w\s]\<close> and \<open> |_\<close>. Both are built
  from literals, a negated set of class escapes and alternation, and each of them
  consumes exactly one character when it matches.
\<close>

datatype set_item = Class_w | Class_s | Item char

datatype regex = Lit char | NegSet "set_item list" | Alt regex regex

fun item_matches :: "set_item \<Rightarrow> char \<Rightarrow> bool" where
  "item_matches Class_w c = is_word_char c"
| "item_matches Class_s c = is_space_char c"
| "item_matches (Item x) c = (c = x)"

fun re_match_char :: "regex \<Rightarrow> char \<Rightarrow> bool" where
  "re_match_char (Lit x) c = (c = x)"
| "re_match_char (NegSet items) c = (\<not> list_ex (\<lambda>i. item_matches i c) items)"
| "re_match_char (Alt a b) c = (re_match_char a c \<or> re_match_char b c)"

text \<open>
  \<open>re.sub(pattern, repl, string)\<close> scans the string from the left and replaces every
  non-overlapping match by \<open>repl\<close>; with one-character patterns every character is
  either replaced or copied.
\<close>

fun re_sub :: "regex \<Rightarrow> string \<Rightarrow> string \<Rightarrow> string" where
  "re_sub r repl [] = []"
| "re_sub r repl (c # cs) = (if re_match_char r c then repl else [c]) @ re_sub r repl cs"

section \<open>Dates\<close>

text \<open>
  \<open>datetime.today()\<close> reads the clock; the date it returns is an input of the model.
  \<open>strftime\<close> with the format \<open>%Y-%m-%d\<close> writes the year with four digits and the
  month and the day with two, padded with zeros. \<open>valid_date\<close> holds of the dates a
  \<open>datetime\<close> can be: years 1 to 9999, months 1 to 12, days 1 to 31.
\<close>

record date =
  year :: nat
  month :: nat
  day :: nat

definition valid_date :: "date \<Rightarrow> bool" where
  "valid_date d = (1 \<le> year d \<and> year d \<le> 9999 \<and> 1 \<le> month d \<and> month d \<le> 12
                   \<and> 1 \<le> day d \<and> day d \<le> 31)"

definition digit_char :: "nat \<Rightarrow> char" where
  "digit_char n = ''0123456789'' ! (n mod 10)"

fun str_nat :: "nat \<Rightarrow> string" where
  "str_nat n = (if n < 10 then [digit_char n] else str_nat (n div 10) @ [digit_char n])"

declare str_nat.simps [simp del]

definition zero_pad :: "nat \<Rightarrow> nat \<Rightarrow> string" where
  "zero_pad w n = replicate (w - length (str_nat n)) CHR ''0'' @ str_nat n"

definition strftime :: "date \<Rightarrow> string" where
  "strftime d = zero_pad 4 (year d) @ ''-'' @ zero_pad 2 (month d) @ ''-'' @ zero_pad 2 (day d)"

section \<open>The title normalizer\<close>

definition clean_title_input :: "date \<Rightarrow> string \<Rightarrow> string" where
  "clean_title_input today title =
     (let t = str_lower title;
          t_str = re_sub (NegSet [Class_w, Class_s]) [] t;
          t_str = re_sub (Alt (Lit CHR '' '') (Lit CHR ''_'')) ''-'' t_str;
          d = today;
          d_str = strftime d
      in d_str @ ''-'' @ t_str)"


text \<open>
  The next three functions give the two substitutions in closed form: which characters the
  first pattern leaves in place, what the second pattern does to one character, and the
  text after the date prefix.
\<close>

definition keep_char :: "char \<Rightarrow> bool" where
  "keep_char c = (is_word_char c \<or> is_space_char c)"

definition hyphenate :: "char \<Rightarrow> char" where
  "hyphenate c = (if c = CHR '' '' \<or> c = CHR ''_'' then CHR ''-'' else c)"

definition title_slug :: "string \<Rightarrow> string" where
  "title_slug t = map hyphenate (filter keep_char (map str_lower_char t))"

text \<open>Removing the eleven characters of a leading \<open>YYYY-MM-DD-\<close>.\<close>

definition strip_date_prefix :: "string \<Rightarrow> string" where
  "strip_date_prefix s = drop 11 s"

text \<open>Python's \<open>sep.join(words)\<close>.\<close>

fun str_join :: "string \<Rightarrow> string list \<Rightarrow> string" where
  "str_join sep [] = []"
| "str_join sep [w] = w"
| "str_join sep (w # ws) = w @ sep @ str_join sep ws"

subsection \<open>The normalizer as the specification words it\<close>

text \<open>
  The specification describes the second substitution as replacing every run of spaces and
  underscores by one hyphen. \<open>spec_clean_title_input\<close> follows these words, to be compared
  with \<open>clean_title_input\<close>.
\<close>

fun spec_collapse_runs :: "bool \<Rightarrow> string \<Rightarrow> string" where
  "spec_collapse_runs in_run [] = []"
| "spec_collapse_runs in_run (c # cs) =
     (if c = CHR '' '' \<or> c = CHR ''_''
      then (if in_run then [] else ''-'') @ spec_collapse_runs True cs
      else c # spec_collapse_runs False cs)"

definition spec_clean_title_input :: "date \<Rightarrow> string \<Rightarrow> string" where
  "spec_clean_title_input d title =
     strftime d @ ''-'' @ spec_collapse_runs False (filter keep_char (str_lower title))"

text \<open>
  The specification also describes the result as the whitespace-separated tokens of the
  title, without their punctuation, joined by hyphens. \<open>spec_hyphen_joined\<close> follows
  these words.
\<close>

fun spec_split_whitespace :: "string \<Rightarrow> string \<Rightarrow> string list" where
  "spec_split_whitespace cur [] = (if cur = [] then [] else [cur])"
| "spec_split_whitespace cur (c # cs) =
     (if is_space_char c then (if cur = [] then [] else [cur]) @ spec_split_whitespace [] cs
      else spec_split_whitespace (cur @ [c]) cs)"

definition spec_hyphen_joined :: "date \<Rightarrow> string \<Rightarrow> string" where
  "spec_hyphen_joined d title =
     strftime d @ ''-'' @
       str_join ''-'' (map (filter is_word_char) (spec_split_whitespace [] (str_lower title)))"

section \<open>Python values, exceptions and paths\<close>

text \<open>
  A setting is a JSON scalar read into Python: \<open>None\<close>, a boolean, an integer or a
  string. \<open>truthy\<close> is Python's truth value and \<open>py_str\<close> is \<open>str()\<close>, which
  \<open>format\<close> applies to every field.
\<close>

datatype pyval = PNone | PBool bool | PInt int | PStr string

datatype exn = MissingPathException | AttributeError | TypeError | IOError

fun truthy :: "pyval \<Rightarrow> bool" where
  "truthy PNone = False"
| "truthy (PBool b) = b"
| "truthy (PInt i) = (i \<noteq> 0)"
| "truthy (PStr s) = (s \<noteq> [])"

fun py_str :: "pyval \<Rightarrow> string" where
  "py_str PNone = ''None''"
| "py_str (PBool b) = (if b then ''True'' else ''False'')"
| "py_str (PInt i) = (if i < 0 then ''-'' @ str_nat (nat (- i)) else str_nat (nat i))"
| "py_str (PStr s) = s"

text \<open>\<open>os.path.join\<close> and \<open>os.path.split\<close> of \<open>posixpath\<close>, with the separator \<open>/\<close>.\<close>

definition startswith_sep :: "string \<Rightarrow> bool" where
  "startswith_sep b = (case b of [] \<Rightarrow> False | c # _ \<Rightarrow> c = CHR ''/'')"

definition endswith_sep :: "string \<Rightarrow> bool" where
  "endswith_sep a = (case rev a of [] \<Rightarrow> False | c # _ \<Rightarrow> c = CHR ''/'')"

definition posix_join :: "string \<Rightarrow> string \<Rightarrow> string" where
  "posix_join a b =
     (if startswith_sep b then b
      else if a = [] \<or> endswith_sep a then a @ b
      else a @ ''/'' @ b)"

text \<open>Joining onto a value that is not a string raises \<open>TypeError\<close>.\<close>

fun os_path_join :: "pyval \<Rightarrow> string \<Rightarrow> exn + string" where
  "os_path_join (PStr a) b = Inr (posix_join a b)"
| "os_path_join _ b = Inl TypeError"

definition os_path_split :: "string \<Rightarrow> string \<times> string" where
  "os_path_split p =
     (let tail = rev (takeWhile (\<lambda>c. c \<noteq> CHR ''/'') (rev p));
          head = take (length p - length tail) p
      in if head \<noteq> [] \<and> \<not> list_all (\<lambda>c. c = CHR ''/'') head
         then (rev (dropWhile (\<lambda>c. c = CHR ''/'') (rev head)), tail)
         else (head, tail))"

section \<open>The editor host\<close>

text \<open>
  Everything the plugin reads from or does to the editor and the file system is a field of
  the host state:
  \<^item> \<open>active_view\<close>: the active view of the window, if there is one, with the \<open>Jekyll\<close>
    entry of its settings (no entry, a dictionary, or a value that is not a dictionary);
  \<^item> \<open>global_settings\<close>: the contents of \<open>Jekyll.sublime-settings\<close>;
  \<^item> \<open>packages_path\<close>: the result of \<open>sublime.packages_path()\<close>;
  \<^item> \<open>clock\<close>: the date \<open>datetime.today()\<close> returns;
  \<^item> \<open>files\<close>: the file system, from path to contents;
  \<^item> \<open>messages\<close>: the texts shown with \<open>sublime.error_message\<close>;
  \<^item> \<open>console\<close>: the exceptions printed with \<open>traceback.print_exc\<close>;
  \<^item> \<open>opened\<close>: the paths given to \<open>open_file\<close>;
  \<^item> \<open>commands\<close>: the \<open>jekyll_post_frontmatter\<close> commands dispatched, each with its
    path and frontmatter.
\<close>

datatype jekyll_entry = NoEntry | DictEntry "string \<rightharpoonup> pyval" | OtherEntry

record host =
  active_view :: "jekyll_entry option"
  global_settings :: "string \<rightharpoonup> pyval"
  packages_path :: string
  clock :: date
  files :: "string \<rightharpoonup> string"
  messages :: "string list"
  console :: "exn list"
  opened :: "string list"
  commands :: "(string \<times> string) list"

subsection \<open>Settings\<close>

text \<open>
  The body of the \<open>try\<close> block shared by every \<open>get_setting\<close>: it raises when there
  is no view or the entry has no \<open>get\<close>, returns the entry's value for the key
  (\<open>None\<close> when the dictionary lacks it), or falls through.
\<close>

definition view_get :: "host \<Rightarrow> string \<Rightarrow> exn + pyval option" where
  "view_get h key =
     (case active_view h of
        None \<Rightarrow> Inl AttributeError
      | Some NoEntry \<Rightarrow> Inr None
      | Some (DictEntry d) \<Rightarrow> Inr (Some (case d key of None \<Rightarrow> PNone | Some v \<Rightarrow> v))
      | Some OtherEntry \<Rightarrow> Inl AttributeError)"

text \<open>The module-level \<open>get_setting(view, key, default)\<close>.\<close>

definition get_setting :: "host \<Rightarrow> string \<Rightarrow> pyval \<Rightarrow> pyval" where
  "get_setting h key dflt =
     (case view_get h key of
        Inr (Some v) \<Rightarrow> v
      | _ \<Rightarrow> (case global_settings h key of None \<Rightarrow> dflt | Some v \<Rightarrow> v))"

text \<open>The method \<open>JekyllNewPostBase.get_setting(key)\<close>, which has no default.\<close>

definition base_get_setting :: "host \<Rightarrow> string \<Rightarrow> pyval" where
  "base_get_setting h key =
     (case view_get h key of
        Inr (Some v) \<Rightarrow> v
      | _ \<Rightarrow> (case global_settings h key of None \<Rightarrow> PNone | Some v \<Rightarrow> v))"

text \<open>A key is missing when the lookup that answers for it has no value under it.\<close>

definition setting_missing :: "host \<Rightarrow> string \<Rightarrow> bool" where
  "setting_missing h key =
     (case active_view h of
        Some (DictEntry d) \<Rightarrow> d key = None
      | _ \<Rightarrow> global_settings h key = None)"

subsection \<open>Host operations\<close>

definition error_message :: "string \<Rightarrow> host \<Rightarrow> host" where
  "error_message m h = h\<lparr>messages := messages h @ [m]\<rparr>"

definition print_exc :: "exn \<Rightarrow> host \<Rightarrow> host" where
  "print_exc e h = h\<lparr>console := console h @ [e]\<rparr>"

definition open_file :: "string \<Rightarrow> host \<Rightarrow> host" where
  "open_file p h = h\<lparr>opened := opened h @ [p]\<rparr>"

definition os_path_exists :: "host \<Rightarrow> string \<Rightarrow> bool" where
  "os_path_exists h p = (files h p \<noteq> None)"

definition os_path_lexists :: "host \<Rightarrow> string \<Rightarrow> bool" where
  "os_path_lexists h p = (files h p \<noteq> None)"

text \<open>\<open>shutil.copy(src, dst)\<close> raises when the source file does not exist.\<close>

definition shutil_copy :: "string \<Rightarrow> string \<Rightarrow> host \<Rightarrow> (exn + unit) \<times> host" where
  "shutil_copy src dst h =
     (case files h src of
        None \<Rightarrow> (Inl IOError, h)
      | Some content \<Rightarrow> (Inr (), h\<lparr>files := (files h)(dst \<mapsto> content)\<rparr>))"

text \<open>
  \<open>open(path, "a").close()\<close> creates an empty file when there is none and leaves an
  existing file as it is.
\<close>

definition open_append :: "string \<Rightarrow> host \<Rightarrow> host" where
  "open_append p h =
     (case files h p of
        None \<Rightarrow> h\<lparr>files := (files h)(p \<mapsto> [])\<rparr>
      | Some _ \<Rightarrow> h)"

section \<open>The plugin\<close>

subsection \<open>The exception decorator\<close>

text \<open>
  \<open>catch_errors\<close> wraps a function. A result is passed on. A \<open>MissingPathException\<close>
  shows a message, copies the bundled settings file to the user's directory when the user
  has none, and opens the user's settings file. Any other exception is printed and
  reported as an unknown error. In both cases the wrapper then returns \<open>None\<close>.
\<close>

definition catch_errors :: "(host \<Rightarrow> (exn + pyval) \<times> host) \<Rightarrow> host \<Rightarrow> (exn + pyval) \<times> host" where
  "catch_errors fn h =
     (case fn h of
        (Inr v, h1) \<Rightarrow> (Inr v, h1)
      | (Inl e, h1) \<Rightarrow>
          if e = MissingPathException then
            (let h2 = error_message
                        ''Jekyll: Unable to find path information in Jekyll.sublime-settings.'' h1;
                 user_settings_path =
                   posix_join (posix_join (packages_path h2) ''User'') ''Jekyll.sublime-settings''
             in if \<not> os_path_exists h2 user_settings_path then
                  (let default_settings_path =
                         posix_join (posix_join (packages_path h2) ''Jekyll'')
                           ''Jekyll.sublime-settings''
                   in case shutil_copy default_settings_path user_settings_path h2 of
                        (Inl e2, h3) \<Rightarrow> (Inl e2, h3)
                      | (Inr _, h3) \<Rightarrow> (Inr PNone, open_file user_settings_path h3))
                else (Inr PNone, open_file user_settings_path h2))
          else
            (Inr PNone,
             error_message ''Jekyll: unknown error (please, report a bug!)'' (print_exc e h1)))"

subsection \<open>Creating a post\<close>

text \<open>The two path lookups, first as written and then under the decorator.\<close>

definition posts_path_string_body :: "host \<Rightarrow> (exn + pyval) \<times> host" where
  "posts_path_string_body h =
     (let p = get_setting h ''posts_path'' PNone
      in if \<not> truthy p \<or> p = PStr [] then (Inl MissingPathException, h) else (Inr p, h))"

definition posts_path_string :: "host \<Rightarrow> (exn + pyval) \<times> host" where
  "posts_path_string = catch_errors posts_path_string_body"

definition drafts_path_string_body :: "host \<Rightarrow> (exn + pyval) \<times> host" where
  "drafts_path_string_body h =
     (let p = base_get_setting h ''drafts_path''
      in if \<not> truthy p \<or> p = PStr [] then (Inl MissingPathException, h) else (Inr p, h))"

definition drafts_path_string :: "host \<Rightarrow> (exn + pyval) \<times> host" where
  "drafts_path_string = catch_errors drafts_path_string_body"

definition create_file :: "string \<Rightarrow> host \<Rightarrow> host" where
  "create_file filename h =
     (case os_path_split filename of
        (base, filename2) \<Rightarrow>
          if filename2 \<noteq> [] then
            (let creation_path = posix_join base filename2 in open_append creation_path h)
          else h)"

definition create_post_frontmatter :: "host \<Rightarrow> string \<Rightarrow> string" where
  "create_post_frontmatter h title =
     (let POST_LAYOUT = base_get_setting h ''default_post_layout'';
          POST_TITLE = PStr title;
          POST_CATEGORIES = base_get_setting h ''default_post_categories'';
          POST_TAGS = base_get_setting h ''default_post_tags'';
          POST_PUBLISHED = base_get_setting h ''default_post_published''
      in ''---\<newline>''
         @ ''layout: '' @ py_str POST_LAYOUT @ ''\<newline>''
         @ ''title: '' @ py_str POST_TITLE @ ''\<newline>''
         @ ''published: '' @ py_str POST_PUBLISHED @ ''\<newline>''
         @ ''categories: '' @ py_str POST_CATEGORIES @ ''\<newline>''
         @ ''tags: '' @ py_str POST_TAGS @ ''\<newline>''
         @ ''---\<newline>\<newline>'')"

text \<open>
  \<open>create_and_open_file\<close> (the same in both commands) creates the file and dispatches
  the \<open>jekyll_post_frontmatter\<close> command on the active view; without a view the call
  raises.
\<close>

definition create_and_open_file :: "string \<Rightarrow> string \<Rightarrow> host \<Rightarrow> (exn + unit) \<times> host" where
  "create_and_open_file path frontmatter h =
     (let h1 = create_file path h
      in case active_view h1 of
           None \<Rightarrow> (Inl AttributeError, h1)
         | Some _ \<Rightarrow> (Inr (), h1\<lparr>commands := commands h1 @ [(path, frontmatter)]\<rparr>))"

definition exists_message :: "string \<Rightarrow> string" where
  "exists_message full_path = ''Jekyll: File already exists at '' @ [CHR 0x22] @ full_path @ [CHR 0x22]"

definition title_input :: "bool \<Rightarrow> string \<Rightarrow> host \<Rightarrow> (exn + unit) \<times> host" where
  "title_input IS_DRAFT title h =
     (case (if IS_DRAFT then drafts_path_string h else posts_path_string h) of
        (Inl e, h1) \<Rightarrow> (Inl e, h1)
      | (Inr post_dir, h1) \<Rightarrow>
          (let syntax = base_get_setting h1 ''default_post_syntax'';
               file_ext = (if syntax = PStr ''Textile'' then ''.textile'' else ''.md'');
               clean_title = clean_title_input (clock h1) title @ file_ext
           in case os_path_join post_dir clean_title of
                Inl e \<Rightarrow> (Inl e, h1)
              | Inr full_path \<Rightarrow>
                  if os_path_lexists h1 full_path then
                    (Inr (), error_message (exists_message full_path) h1)
                  else
                    (let frontmatter = create_post_frontmatter h1 title
                     in create_and_open_file full_path frontmatter h1)))"

text \<open>
  The setting a request needs, the extension and the destination path, as \<open>title_input\<close>
  computes them.
\<close>

definition required_path :: "bool \<Rightarrow> host \<Rightarrow> pyval" where
  "required_path IS_DRAFT h =
     (if IS_DRAFT then base_get_setting h ''drafts_path'' else get_setting h ''posts_path'' PNone)"

definition file_ext_of :: "host \<Rightarrow> string" where
  "file_ext_of h = (if base_get_setting h ''default_post_syntax'' = PStr ''Textile'' then ''.textile'' else ''.md'')"

definition destination :: "host \<Rightarrow> string \<Rightarrow> string \<Rightarrow> string" where
  "destination h dir title = posix_join dir (clean_title_input (clock h) title @ file_ext_of h)"

definition user_settings_file :: "host \<Rightarrow> string" where
  "user_settings_file h = posix_join (posix_join (packages_path h) ''User'') ''Jekyll.sublime-settings''"

definition default_settings_file :: "host \<Rightarrow> string" where
  "default_settings_file h = posix_join (posix_join (packages_path h) ''Jekyll'') ''Jekyll.sublime-settings''"

definition missing_path_message :: string where
  "missing_path_message = ''Jekyll: Unable to find path information in Jekyll.sublime-settings.''"

definition unknown_error_message :: string where
  "unknown_error_message = ''Jekyll: unknown error (please, report a bug!)''"

section \<open>Concrete inputs\<close>

definition date_2024_01_05 :: date where
  "date_2024_01_05 = \<lparr>year = 2024, month = 1, day = 5\<rparr>"

text \<open>A configured blog whose post of the day exists already.\<close>

definition host_blog :: host where
  "host_blog =
     \<lparr>active_view = Some NoEntry,
      global_settings = map_of
        [(''posts_path'', PStr ''/blog/_posts''),
         (''drafts_path'', PStr ''/blog/_drafts''),
         (''default_post_layout'', PStr ''post''),
         (''default_post_categories'', PStr ''[blog]''),
         (''default_post_tags'', PStr ''[]''),
         (''default_post_published'', PBool True),
         (''default_post_syntax'', PStr ''Markdown'')],
      packages_path = ''/st/Packages'',
      clock = date_2024_01_05,
      files = map_of
        [(''/blog/_posts/2024-01-05-hello-world.md'', ''old text''),
         (''/st/Packages/Jekyll/Jekyll.sublime-settings'', ''{}'')],
      messages = [], console = [], opened = [], commands = []\<rparr>"

text \<open>An installation without any setting and without a user settings file.\<close>

definition host_unconfigured :: host where
  "host_unconfigured =
     \<lparr>active_view = Some NoEntry,
      global_settings = map_of [],
      packages_path = ''/st/Packages'',
      clock = date_2024_01_05,
      files = map_of [(''/st/Packages/Jekyll/Jekyll.sublime-settings'', ''{}'')],
      messages = [], console = [], opened = [], commands = []\<rparr>"

text \<open>An installation without any setting and without any file, the bundled default included.\<close>

definition host_bare :: host where
  "host_bare =
     \<lparr>active_view = Some NoEntry,
      global_settings = map_of [],
      packages_path = ''/st/Packages'',
      clock = date_2024_01_05,
      files = map_of [],
      messages = [], console = [], opened = [], commands = []\<rparr>"

text \<open>A wrapped function that raises an exception other than the missing-path one.\<close>

definition raise_attribute_error :: "host \<Rightarrow> (exn + pyval) \<times> host" where
  "raise_attribute_error h = (Inl AttributeError, h)"

section \<open>Evaluation\<close>

text \<open>The equations that evaluate the model on a concrete input.\<close>

lemmas normalizer_eval =
  clean_title_input_def str_lower_def str_lower_char_def is_word_char_def is_space_char_def
  keep_char_def strftime_def zero_pad_def str_nat.simps digit_char_def char_of_eq_iff
  date_2024_01_05_def strip_date_prefix_def

lemmas host_eval =
  title_input_def posts_path_string_def posts_path_string_body_def drafts_path_string_def
  drafts_path_string_body_def catch_errors_def get_setting_def base_get_setting_def view_get_def
  error_message_def print_exc_def open_file_def os_path_exists_def os_path_lexists_def
  shutil_copy_def open_append_def create_file_def create_and_open_file_def
  create_post_frontmatter_def os_path_split_def posix_join_def startswith_sep_def
  endswith_sep_def exists_message_def required_path_def file_ext_of_def destination_def
  user_settings_file_def default_settings_file_def missing_path_message_def
  unknown_error_message_def setting_missing_def host_blog_def host_unconfigured_def
  host_bare_def raise_attribute_error_def

section \<open>The substitutions in closed form\<close>

lemma re_sub_strip: "re_sub (NegSet [Class_w, Class_s]) [] s = filter keep_char s"
  by (induction s) (auto simp add: keep_char_def)

lemma re_sub_hyphen: "re_sub (Alt (Lit CHR '' '') (Lit CHR ''_'')) ''-'' s = map hyphenate s"
  by (induction s) (auto simp add: hyphenate_def)

lemma clean_title_input_slug: "clean_title_input d t = strftime d @ ''-'' @ title_slug t"
  by (simp add: clean_title_input_def Let_def re_sub_strip re_sub_hyphen str_lower_def
      title_slug_def)

lemma title_slug_Nil: "title_slug [] = []"
  by (simp add: title_slug_def)

lemma title_slug_Cons:
  "title_slug (c # t) =
     (if keep_char (str_lower_char c) then hyphenate (str_lower_char c) # title_slug t
      else title_slug t)"
  by (simp add: title_slug_def)

lemma title_slug_append: "title_slug (a @ b) = title_slug a @ title_slug b"
  by (simp add: title_slug_def)

lemma length_title_slug: "length (title_slug t) \<le> length t"
proof -
  have "length (filter keep_char (map str_lower_char t)) \<le> length (map str_lower_char t)"
    by (rule length_filter_le)
  then show ?thesis by (simp add: title_slug_def)
qed

section \<open>The date prefix\<close>

lemma length_str_nat_1: "n < 10 \<Longrightarrow> length (str_nat n) = 1"
  by (simp add: str_nat.simps)

lemma length_str_nat_2: "n < 100 \<Longrightarrow> length (str_nat n) \<le> 2"
  by (subst str_nat.simps) (simp add: length_str_nat_1)

lemma length_str_nat_3: "n < 1000 \<Longrightarrow> length (str_nat n) \<le> 3"
  using length_str_nat_2 [of "n div 10"] by (subst str_nat.simps) simp

lemma length_str_nat_4: "n < 10000 \<Longrightarrow> length (str_nat n) \<le> 4"
  using length_str_nat_3 [of "n div 10"] by (subst str_nat.simps) simp

lemma length_zero_pad: "length (str_nat n) \<le> w \<Longrightarrow> length (zero_pad w n) = w"
  by (simp add: zero_pad_def)

lemma length_strftime: "valid_date d \<Longrightarrow> length (strftime d) = 10"
  using length_str_nat_4 [of "year d"] length_str_nat_2 [of "month d"]
    length_str_nat_2 [of "day d"]
  by (simp add: strftime_def valid_date_def length_zero_pad)

lemma strip_clean: "valid_date d \<Longrightarrow> strip_date_prefix (clean_title_input d t) = title_slug t"
  by (simp add: clean_title_input_slug strip_date_prefix_def length_strftime)

section \<open>Characters\<close>

lemma str_lower_char_idem: "str_lower_char (str_lower_char c) = str_lower_char c"
  by (auto simp add: str_lower_char_def Let_def)

lemma str_lower_char_space: "str_lower_char c = CHR '' '' \<longleftrightarrow> c = CHR '' ''"
  by (auto simp add: str_lower_char_def Let_def char_of_eq_iff take_bit_eq_mod)

lemma str_lower_char_underscore: "str_lower_char c = CHR ''_'' \<longleftrightarrow> c = CHR ''_''"
  by (auto simp add: str_lower_char_def Let_def char_of_eq_iff take_bit_eq_mod)

lemma is_space_lower: "is_space_char (str_lower_char c) = is_space_char c"
  by (auto simp add: str_lower_char_def is_space_char_def Let_def)

lemma is_space_space: "is_space_char CHR '' ''"
  by (simp add: is_space_char_def)

lemma keep_hyphen: "\<not> keep_char CHR ''-''"
  by (simp add: keep_char_def is_word_char_def is_space_char_def)

lemma keep_sep: "keep_char CHR '' ''" "keep_char CHR ''_''"
  by (simp_all add: keep_char_def is_word_char_def is_space_char_def)

lemma hyphenate_eq_hyphen:
  "hyphenate x = CHR ''-'' \<longleftrightarrow> x = CHR '' '' \<or> x = CHR ''_'' \<or> x = CHR ''-''"
  by (simp add: hyphenate_def)

lemma title_slug_chars: "x \<in> set (title_slug t) \<Longrightarrow> x \<noteq> CHR '' '' \<and> x \<noteq> CHR ''_''"
  by (auto simp add: title_slug_def hyphenate_def split: if_splits)

lemma title_slug_sep_free:
  "CHR '' '' \<notin> set (title_slug t) \<and> CHR ''_'' \<notin> set (title_slug t)"
  using title_slug_chars by blast

lemma title_slug_alphabet:
  "list_all (\<lambda>c. c = CHR ''-'' \<or> is_word_char c \<or> is_space_char c) (title_slug t)"
  by (induction t) (auto simp add: title_slug_Nil title_slug_Cons hyphenate_def keep_char_def)

section \<open>Renormalizing a slug\<close>

lemma title_slug_no_sep:
  "CHR '' '' \<notin> set t \<Longrightarrow> CHR ''_'' \<notin> set t \<Longrightarrow> title_slug (title_slug t) = title_slug t"
proof (induction t)
  case Nil
  then show ?case by (simp add: title_slug_def)
next
  case (Cons c t)
  then have ih: "title_slug (title_slug t) = title_slug t" by simp
  from Cons.prems have c: "c \<noteq> CHR '' ''" "c \<noteq> CHR ''_''" by auto
  then have h: "hyphenate (str_lower_char c) = str_lower_char c"
    by (simp add: hyphenate_def str_lower_char_space str_lower_char_underscore)
  show ?case
  proof (cases "keep_char (str_lower_char c)")
    case True
    then have "title_slug (c # t) = str_lower_char c # title_slug t"
      by (simp add: title_slug_Cons h)
    moreover have "title_slug (str_lower_char c # title_slug t)
                     = str_lower_char c # title_slug (title_slug t)"
      using True by (simp add: title_slug_Cons h str_lower_char_idem)
    ultimately show ?thesis using ih by simp
  next
    case False
    then have "title_slug (c # t) = title_slug t" by (simp add: title_slug_Cons)
    then show ?thesis using ih by simp
  qed
qed

lemma hyphen_char_iff:
  "keep_char (str_lower_char c) \<and> hyphenate (str_lower_char c) = CHR ''-''
     \<longleftrightarrow> c = CHR '' '' \<or> c = CHR ''_''"
proof
  assume h: "keep_char (str_lower_char c) \<and> hyphenate (str_lower_char c) = CHR ''-''"
  then have "str_lower_char c \<noteq> CHR ''-''" using keep_hyphen by auto
  with h have "str_lower_char c = CHR '' '' \<or> str_lower_char c = CHR ''_''"
    by (simp add: hyphenate_eq_hyphen)
  then show "c = CHR '' '' \<or> c = CHR ''_''"
    by (simp add: str_lower_char_space str_lower_char_underscore)
next
  assume "c = CHR '' '' \<or> c = CHR ''_''"
  then show "keep_char (str_lower_char c) \<and> hyphenate (str_lower_char c) = CHR ''-''"
    using keep_sep by (auto simp add: str_lower_char_def hyphenate_def)
qed

lemma title_slug_hyphen_iff:
  "CHR ''-'' \<in> set (title_slug t) \<longleftrightarrow> CHR '' '' \<in> set t \<or> CHR ''_'' \<in> set t"
proof (induction t)
  case Nil
  then show ?case by (simp add: title_slug_def)
next
  case (Cons c t)
  have "CHR ''-'' \<in> set (title_slug (c # t)) \<longleftrightarrow>
          (keep_char (str_lower_char c) \<and> hyphenate (str_lower_char c) = CHR ''-'')
          \<or> CHR ''-'' \<in> set (title_slug t)"
    by (auto simp add: title_slug_Cons)
  then show ?case using Cons.IH hyphen_char_iff [of c] by auto
qed

lemma title_slug_idem_iff:
  "title_slug (title_slug t) = title_slug t
     \<longleftrightarrow> CHR '' '' \<notin> set t \<and> CHR ''_'' \<notin> set t"
proof
  assume eq: "title_slug (title_slug t) = title_slug t"
  have "CHR ''-'' \<notin> set (title_slug (title_slug t))"
    using title_slug_sep_free [of t] by (simp add: title_slug_hyphen_iff)
  with eq have "CHR ''-'' \<notin> set (title_slug t)" by simp
  then show "CHR '' '' \<notin> set t \<and> CHR ''_'' \<notin> set t"
    by (simp add: title_slug_hyphen_iff)
next
  assume "CHR '' '' \<notin> set t \<and> CHR ''_'' \<notin> set t"
  then show "title_slug (title_slug t) = title_slug t"
    by (simp add: title_slug_no_sep)
qed

section \<open>Tokens and separators\<close>

lemma title_slug_token:
  "\<forall>c\<in>set w. \<not> is_space_char c \<and> c \<noteq> CHR ''_'' \<Longrightarrow>
     title_slug w = filter is_word_char (str_lower w)"
proof (induction w)
  case Nil
  then show ?case by (simp add: title_slug_def str_lower_def)
next
  case (Cons c w)
  then have c: "\<not> is_space_char c" "c \<noteq> CHR ''_''" by auto
  then have "c \<noteq> CHR '' ''" using is_space_space by auto
  with c have h: "hyphenate (str_lower_char c) = str_lower_char c"
    by (simp add: hyphenate_def str_lower_char_space str_lower_char_underscore)
  have k: "keep_char (str_lower_char c) = is_word_char (str_lower_char c)"
    using c by (simp add: keep_char_def is_space_lower)
  from Cons have "title_slug w = filter is_word_char (str_lower w)" by simp
  then show ?case
    by (simp add: title_slug_Cons h k str_lower_def)
qed

lemma str_lower_char_whitespace: "is_space_char s \<Longrightarrow> str_lower_char s = s"
  by (auto simp add: str_lower_char_def is_space_char_def Let_def)

lemma title_slug_separator:
  assumes "is_space_char s \<or> s = CHR ''_''"
  shows "title_slug [s] = [if s = CHR '' '' \<or> s = CHR ''_'' then CHR ''-'' else s]"
proof -
  have l: "str_lower_char s = s"
    using assms str_lower_char_whitespace by (auto simp add: str_lower_char_def)
  have k: "keep_char s"
    using assms keep_sep by (auto simp add: keep_char_def)
  show ?thesis
    using l k by (simp add: title_slug_def hyphenate_def)
qed

lemma title_slug_pieces:
  assumes "\<forall>(w, s)\<in>set pieces.
             (\<forall>c\<in>set w. \<not> is_space_char c \<and> c \<noteq> CHR ''_'') \<and> (is_space_char s \<or> s = CHR ''_'')"
  shows "title_slug (concat (map (\<lambda>(w, s). w @ [s]) pieces))
           = concat (map (\<lambda>(w, s). filter is_word_char (str_lower w)
                                   @ [if s = CHR '' '' \<or> s = CHR ''_'' then CHR ''-'' else s]) pieces)"
  using assms
proof (induction pieces)
  case Nil
  then show ?case by (simp add: title_slug_Nil)
next
  case (Cons p pieces)
  obtain w s where p: "p = (w, s)" by (cases p)
  from Cons.prems p have w: "\<forall>c\<in>set w. \<not> is_space_char c \<and> c \<noteq> CHR ''_''"
    and s: "is_space_char s \<or> s = CHR ''_''" by auto
  have ih: "title_slug (concat (map (\<lambda>(w, s). w @ [s]) pieces))
           = concat (map (\<lambda>(w, s). filter is_word_char (str_lower w)
                                   @ [if s = CHR '' '' \<or> s = CHR ''_'' then CHR ''-'' else s]) pieces)"
    using Cons by simp
  have "title_slug (w @ [s] @ concat (map (\<lambda>(w, s). w @ [s]) pieces))
          = title_slug w @ title_slug [s] @ title_slug (concat (map (\<lambda>(w, s). w @ [s]) pieces))"
    by (simp only: title_slug_append)
  then show ?case
    using ih title_slug_token [OF w] title_slug_separator [OF s] by (simp add: p)
qed

section \<open>Claims about the title normalizer\<close>

text \<open>
  C1 (as amended). For every title and date the normalizer returns the formatted date, a
  hyphen, and the title transformed by lowercasing, removing every character that is
  neither a word character nor whitespace, and replacing each single space and each
  single underscore by a hyphen. A run of spaces or underscores is not collapsed.
\<close>

theorem clean_title_input_closed_form:
  "clean_title_input d t =
     strftime d @ ''-'' @
       map (\<lambda>c. if c = CHR '' '' \<or> c = CHR ''_'' then CHR ''-'' else c)
         (filter (\<lambda>c. is_word_char c \<or> is_space_char c) (map str_lower_char t))"
proof -
  have "title_slug t =
          map (\<lambda>c. if c = CHR '' '' \<or> c = CHR ''_'' then CHR ''-'' else c)
            (filter (\<lambda>c. is_word_char c \<or> is_space_char c) (map str_lower_char t))"
    unfolding title_slug_def keep_char_def [abs_def] hyphenate_def [abs_def] by (rule refl)
  then show ?thesis by (simp add: clean_title_input_slug)
qed

text \<open>
  C1, as the specification states it, fails on a title with two adjacent spaces: the code
  writes two hyphens where collapsing the run would write one.
\<close>

theorem clean_title_input_run_counterexample:
  "clean_title_input date_2024_01_05 ''a  b'' = ''2024-01-05-a--b''
   \<and> spec_clean_title_input date_2024_01_05 ''a  b'' = ''2024-01-05-a-b''"
  by (simp add: normalizer_eval spec_clean_title_input_def)

text \<open>
  C2 (as amended). On a valid date, stripping the date prefix from a slug and normalizing
  the remainder again gives the same slug exactly when the title contains neither a space
  nor an underscore.
\<close>

theorem clean_title_input_idempotent_iff:
  assumes "valid_date d"
  shows "clean_title_input d (strip_date_prefix (clean_title_input d t)) = clean_title_input d t
         \<longleftrightarrow> CHR '' '' \<notin> set t \<and> CHR ''_'' \<notin> set t"
proof -
  have "strip_date_prefix (clean_title_input d t) = title_slug t"
    using assms by (rule strip_clean)
  then show ?thesis
    by (simp add: clean_title_input_slug title_slug_idem_iff)
qed

theorem clean_title_input_idempotent_iff_witness:
  "valid_date date_2024_01_05
   \<and> clean_title_input date_2024_01_05
        (strip_date_prefix (clean_title_input date_2024_01_05 ''Hello,World!''))
      = clean_title_input date_2024_01_05 ''Hello,World!''"
proof -
  have h: "valid_date date_2024_01_05"
    by (simp add: valid_date_def date_2024_01_05_def)
  show ?thesis
    using h clean_title_input_idempotent_iff [OF h, of "''Hello,World!''"] by simp
qed

text \<open>
  C2, as the specification states it, fails on a title with a space: the hyphen written
  for the space is removed when the slug is normalized again.
\<close>

theorem clean_title_input_idempotent_counterexample:
  "clean_title_input date_2024_01_05 ''a b'' = ''2024-01-05-a-b''
   \<and> clean_title_input date_2024_01_05
        (strip_date_prefix (clean_title_input date_2024_01_05 ''a b'')) = ''2024-01-05-ab''"
  by (simp add: normalizer_eval)

text \<open>
  C7 (as amended). Every title is a sequence of tokens, each followed by one separator (a
  whitespace character or an underscore), and a last token; the tokens contain neither.
  The slug is the date, a hyphen, and the tokens, lowercased and without their punctuation
  (every character that is not a word character), put together again with each space and
  each underscore replaced by one hyphen and every other whitespace separator kept as it
  is. In particular the title "Hello, World!" on 2024-01-05 gives 2024-01-05-hello-world.
\<close>

theorem clean_title_input_pieces:
  assumes "\<forall>(w, s)\<in>set pieces.
             (\<forall>c\<in>set w. \<not> is_space_char c \<and> c \<noteq> CHR ''_'') \<and> (is_space_char s \<or> s = CHR ''_'')"
    and "\<forall>c\<in>set w_last. \<not> is_space_char c \<and> c \<noteq> CHR ''_''"
  shows "clean_title_input d (concat (map (\<lambda>(w, s). w @ [s]) pieces) @ w_last)
           = strftime d @ ''-'' @
               concat (map (\<lambda>(w, s). filter is_word_char (str_lower w)
                                     @ [if s = CHR '' '' \<or> s = CHR ''_'' then CHR ''-'' else s]) pieces)
               @ filter is_word_char (str_lower w_last)
         \<and> clean_title_input date_2024_01_05 ''Hello, World!'' = ''2024-01-05-hello-world''"
proof -
  have "title_slug (concat (map (\<lambda>(w, s). w @ [s]) pieces) @ w_last)
          = concat (map (\<lambda>(w, s). filter is_word_char (str_lower w)
                                   @ [if s = CHR '' '' \<or> s = CHR ''_'' then CHR ''-'' else s]) pieces)
            @ filter is_word_char (str_lower w_last)"
    using title_slug_pieces [OF assms(1)] title_slug_token [OF assms(2)]
    by (simp only: title_slug_append)
  then have "clean_title_input d (concat (map (\<lambda>(w, s). w @ [s]) pieces) @ w_last)
           = strftime d @ ''-'' @
               concat (map (\<lambda>(w, s). filter is_word_char (str_lower w)
                                     @ [if s = CHR '' '' \<or> s = CHR ''_'' then CHR ''-'' else s]) pieces)
               @ filter is_word_char (str_lower w_last)"
    by (simp add: clean_title_input_slug)
  moreover have "clean_title_input date_2024_01_05 ''Hello, World!'' = ''2024-01-05-hello-world''"
    by (simp add: normalizer_eval)
  ultimately show ?thesis by simp
qed

theorem clean_title_input_pieces_witness:
  "list_all (\<lambda>(w, s). list_all (\<lambda>c. \<not> is_space_char c \<and> c \<noteq> CHR ''_'') w
                        \<and> (is_space_char s \<or> s = CHR ''_''))
     [(''Hello,'', CHR '' ''), (''big'', CHR 0x09), (''snake'', CHR ''_'')]
   \<and> list_all (\<lambda>c. \<not> is_space_char c \<and> c \<noteq> CHR ''_'') ''World!''
   \<and> concat (map (\<lambda>(w, s). w @ [s])
         [(''Hello,'', CHR '' ''), (''big'', CHR 0x09), (''snake'', CHR ''_'')]) @ ''World!''
        = ''Hello, big'' @ [CHR 0x09] @ ''snake_World!''
   \<and> clean_title_input date_2024_01_05 (''Hello, big'' @ [CHR 0x09] @ ''snake_World!'')
        = ''2024-01-05-hello-big'' @ [CHR 0x09] @ ''snake-world''"
proof -
  have h1: "\<forall>(w, s)\<in>set [(''Hello,'', CHR '' ''), (''big'', CHR 0x09), (''snake'', CHR ''_'')].
             (\<forall>c\<in>set w. \<not> is_space_char c \<and> c \<noteq> CHR ''_'') \<and> (is_space_char s \<or> s = CHR ''_'')"
    by (simp add: is_space_char_def)
  have h2: "\<forall>c\<in>set ''World!''. \<not> is_space_char c \<and> c \<noteq> CHR ''_''"
    by (simp add: is_space_char_def)
  show ?thesis
    using h1 h2 clean_title_input_pieces [OF h1 h2, of date_2024_01_05]
    by (simp add: normalizer_eval list_all_iff)
qed

text \<open>
  C7, as the specification states it, fails on a title whose tokens are separated by a
  tab: the tab is whitespace, so it is kept, and it is not a space, so no hyphen is
  written for it. It also fails on a title with an underscore: the underscore is a word
  character, and it is not kept but replaced by a hyphen.
\<close>

theorem clean_title_input_separator_counterexample:
  "clean_title_input date_2024_01_05 (''Hello,'' @ [CHR 0x09] @ ''World!'')
      = ''2024-01-05-hello'' @ [CHR 0x09] @ ''world''
   \<and> spec_hyphen_joined date_2024_01_05 (''Hello,'' @ [CHR 0x09] @ ''World!'')
      = ''2024-01-05-hello-world''
   \<and> clean_title_input date_2024_01_05 ''snake_case!'' = ''2024-01-05-snake-case''
   \<and> spec_hyphen_joined date_2024_01_05 ''snake_case!'' = ''2024-01-05-snake_case''"
  by (simp add: normalizer_eval spec_hyphen_joined_def)

text \<open>
  C9. The normalizer has no error case: for every date and every title, the empty one
  included, it returns a string made of the formatted date, a hyphen and a body that is
  no longer than the title and consists of hyphens, word characters and whitespace. The
  empty title gives the date and a hyphen.
\<close>

theorem clean_title_input_total:
  "(\<exists>body. clean_title_input d t = strftime d @ ''-'' @ body
           \<and> length body \<le> length t
           \<and> list_all (\<lambda>c. c = CHR ''-'' \<or> is_word_char c \<or> is_space_char c) body)
   \<and> clean_title_input d [] = strftime d @ ''-''"
proof -
  have "clean_title_input d t = strftime d @ ''-'' @ title_slug t"
    by (rule clean_title_input_slug)
  moreover have "length (title_slug t) \<le> length t"
    by (rule length_title_slug)
  moreover have "list_all (\<lambda>c. c = CHR ''-'' \<or> is_word_char c \<or> is_space_char c) (title_slug t)"
    by (rule title_slug_alphabet)
  moreover have "clean_title_input d [] = strftime d @ ''-''"
    by (simp add: clean_title_input_slug title_slug_Nil)
  ultimately show ?thesis by blast
qed

text \<open>
  C10. For every title the slug begins with the formatted date and a hyphen; what follows
  is the cleaned title (the lowercased title after the first substitution) with every
  space and every underscore replaced by a hyphen and every other character unchanged, so
  it contains no space and no underscore; and the empty title gives exactly the date and
  one hyphen.
\<close>

theorem clean_title_input_no_separator:
  "(\<exists>body. clean_title_input d t = strftime d @ ''-'' @ body
           \<and> body = map (\<lambda>c. if c = CHR '' '' \<or> c = CHR ''_'' then CHR ''-'' else c)
                       (re_sub (NegSet [Class_w, Class_s]) [] (str_lower t))
           \<and> CHR '' '' \<notin> set body \<and> CHR ''_'' \<notin> set body)
   \<and> clean_title_input d [] = strftime d @ ''-''"
proof -
  have "clean_title_input d t = strftime d @ ''-'' @ title_slug t"
    by (rule clean_title_input_slug)
  moreover have "title_slug t = map (\<lambda>c. if c = CHR '' '' \<or> c = CHR ''_'' then CHR ''-'' else c)
                       (re_sub (NegSet [Class_w, Class_s]) [] (str_lower t))"
    unfolding title_slug_def hyphenate_def [abs_def] by (simp add: re_sub_strip str_lower_def)
  moreover have "CHR '' '' \<notin> set (title_slug t) \<and> CHR ''_'' \<notin> set (title_slug t)"
    by (rule title_slug_sep_free)
  moreover have "clean_title_input d [] = strftime d @ ''-''"
    by (simp add: clean_title_input_slug title_slug_Nil)
  ultimately show ?thesis by metis
qed

section \<open>Claims about the frontmatter builder\<close>

text \<open>
  C3. For the title "My Post" with the layout "post", the categories "[blog]", the tags
  "[]" and published true, the builder returns exactly the block below: the fields
  layout, title, published, categories and tags, in this order, between two delimiter
  lines, followed by an empty line.
\<close>

theorem create_post_frontmatter_my_post:
  assumes "base_get_setting h ''default_post_layout'' = PStr ''post''"
    and "base_get_setting h ''default_post_categories'' = PStr ''[blog]''"
    and "base_get_setting h ''default_post_tags'' = PStr ''[]''"
    and "base_get_setting h ''default_post_published'' = PBool True"
  shows "create_post_frontmatter h ''My Post'' =
           ''---\<newline>layout: post\<newline>title: My Post\<newline>published: True\<newline>categories: [blog]\<newline>tags: []\<newline>---\<newline>\<newline>''"
  using assms by (simp add: create_post_frontmatter_def)

theorem create_post_frontmatter_my_post_witness:
  "base_get_setting host_blog ''default_post_layout'' = PStr ''post''
   \<and> base_get_setting host_blog ''default_post_categories'' = PStr ''[blog]''
   \<and> base_get_setting host_blog ''default_post_tags'' = PStr ''[]''
   \<and> base_get_setting host_blog ''default_post_published'' = PBool True
   \<and> create_post_frontmatter host_blog ''My Post'' =
       ''---\<newline>layout: post\<newline>title: My Post\<newline>published: True\<newline>categories: [blog]\<newline>tags: []\<newline>---\<newline>\<newline>''"
proof -
  have h1: "base_get_setting host_blog ''default_post_layout'' = PStr ''post''"
    by (simp add: base_get_setting_def view_get_def host_blog_def)
  have h2: "base_get_setting host_blog ''default_post_categories'' = PStr ''[blog]''"
    by (simp add: base_get_setting_def view_get_def host_blog_def)
  have h3: "base_get_setting host_blog ''default_post_tags'' = PStr ''[]''"
    by (simp add: base_get_setting_def view_get_def host_blog_def)
  have h4: "base_get_setting host_blog ''default_post_published'' = PBool True"
    by (simp add: base_get_setting_def view_get_def host_blog_def)
  show ?thesis
    using h1 h2 h3 h4 create_post_frontmatter_my_post [OF h1 h2 h3 h4] by simp
qed



section \<open>Claims about error handling\<close>

lemma required_path_present:
  assumes "required_path is_draft h = PStr dir" and "dir \<noteq> []"
  shows "(if is_draft then drafts_path_string h else posts_path_string h) = (Inr (PStr dir), h)"
  using assms
  by (simp add: required_path_def posts_path_string_def posts_path_string_body_def
      drafts_path_string_def drafts_path_string_body_def catch_errors_def split: if_splits)

lemma required_path_missing:
  assumes "\<not> truthy (required_path is_draft h)"
  shows "(if is_draft then drafts_path_string h else posts_path_string h)
           = catch_errors (\<lambda>h. (Inl MissingPathException, h)) h"
  using assms
  by (simp add: required_path_def posts_path_string_def posts_path_string_body_def
      drafts_path_string_def drafts_path_string_body_def catch_errors_def split: if_splits)

text \<open>
  C4. When the required path setting is a non-empty string and the destination computed
  from it exists already, the command shows the message that the file exists and returns;
  nothing else of the state changes: no file is written or truncated and no frontmatter
  command is dispatched.
\<close>

theorem title_input_existing_file:
  assumes "required_path is_draft h = PStr dir" and "dir \<noteq> []"
    and "os_path_lexists h (destination h dir title)"
  shows "title_input is_draft title h =
           (Inr (), h\<lparr>messages := messages h @ [exists_message (destination h dir title)]\<rparr>)
         \<and> files (snd (title_input is_draft title h)) = files h
         \<and> commands (snd (title_input is_draft title h)) = commands h"
proof -
  have p: "(if is_draft then drafts_path_string h else posts_path_string h) = (Inr (PStr dir), h)"
    using assms(1,2) by (rule required_path_present)
  have "title_input is_draft title h =
           (Inr (), h\<lparr>messages := messages h @ [exists_message (destination h dir title)]\<rparr>)"
    using assms(3) unfolding title_input_def p
    by (simp add: destination_def file_ext_of_def error_message_def Let_def)
  then show ?thesis by simp
qed

theorem title_input_existing_file_witness:
  "required_path False host_blog = PStr ''/blog/_posts''
   \<and> os_path_lexists host_blog (destination host_blog ''/blog/_posts'' ''Hello, World!'')
   \<and> destination host_blog ''/blog/_posts'' ''Hello, World!''
        = ''/blog/_posts/2024-01-05-hello-world.md''
   \<and> title_input False ''Hello, World!'' host_blog =
       (Inr (), host_blog\<lparr>messages :=
          [exists_message ''/blog/_posts/2024-01-05-hello-world.md'']\<rparr>)"
proof -
  have h1: "required_path False host_blog = PStr ''/blog/_posts''"
    by (simp add: required_path_def get_setting_def view_get_def host_blog_def)
  have h2: "''/blog/_posts'' \<noteq> []" by simp
  have d: "destination host_blog ''/blog/_posts'' ''Hello, World!''
             = ''/blog/_posts/2024-01-05-hello-world.md''"
    by (simp add: destination_def file_ext_of_def base_get_setting_def view_get_def
        posix_join_def startswith_sep_def endswith_sep_def host_blog_def normalizer_eval)
  have h3: "os_path_lexists host_blog (destination host_blog ''/blog/_posts'' ''Hello, World!'')"
    unfolding d by (simp add: os_path_lexists_def host_blog_def)
  have m: "messages host_blog = []" by (simp add: host_blog_def)
  show ?thesis
    using h1 h3 d m title_input_existing_file [OF h1 h2 h3] by simp
qed

text \<open>
  C5 (as amended). When the required path setting is absent or empty (any value Python
  takes for false), the command shows the missing-path message, dispatches no frontmatter
  command, does not end normally, and creates or changes no file other than the user's
  settings file. When the user's settings file exists it is opened as it is; when it does
  not exist and the bundled default does, it is first created with the contents of the
  default and then opened; when neither exists, no file is created and none is opened.
\<close>

theorem title_input_missing_path:
  assumes "\<not> truthy (required_path is_draft h)"
  shows "case title_input is_draft title h of
           (r, h2) \<Rightarrow>
             r \<noteq> Inr ()
             \<and> messages h2 = messages h @ [missing_path_message]
             \<and> commands h2 = commands h
             \<and> (\<forall>p. p \<noteq> user_settings_file h \<longrightarrow> files h2 p = files h p)
             \<and> (os_path_exists h (user_settings_file h) \<longrightarrow>
                  files h2 = files h \<and> opened h2 = opened h @ [user_settings_file h])
             \<and> (\<forall>content.
                  \<not> os_path_exists h (user_settings_file h)
                  \<and> files h (default_settings_file h) = Some content \<longrightarrow>
                  files h2 = (files h)(user_settings_file h \<mapsto> content)
                  \<and> opened h2 = opened h @ [user_settings_file h])
             \<and> (\<not> os_path_exists h (user_settings_file h)
                  \<and> files h (default_settings_file h) = None \<longrightarrow>
                  files h2 = files h \<and> opened h2 = opened h)"
proof -
  have p: "(if is_draft then drafts_path_string h else posts_path_string h)
             = catch_errors (\<lambda>h. (Inl MissingPathException, h)) h"
    using assms by (rule required_path_missing)
  show ?thesis
    unfolding title_input_def p
    by (auto simp add: catch_errors_def error_message_def open_file_def os_path_exists_def
        shutil_copy_def user_settings_file_def default_settings_file_def
        missing_path_message_def Let_def split: option.splits)
qed

theorem title_input_missing_path_witness:
  "\<not> truthy (required_path False host_unconfigured)
   \<and> fst (title_input False ''Hello, World!'' host_unconfigured) \<noteq> Inr ()
   \<and> messages (snd (title_input False ''Hello, World!'' host_unconfigured))
        = [missing_path_message]
   \<and> commands (snd (title_input False ''Hello, World!'' host_unconfigured)) = []
   \<and> files (snd (title_input False ''Hello, World!'' host_unconfigured))
        ''/st/Packages/User/Jekyll.sublime-settings'' = Some ''{}''
   \<and> opened (snd (title_input False ''Hello, World!'' host_unconfigured))
        = [''/st/Packages/User/Jekyll.sublime-settings'']"
proof -
  have h: "\<not> truthy (required_path False host_unconfigured)"
    by (simp add: required_path_def get_setting_def view_get_def host_unconfigured_def)
  have u: "user_settings_file host_unconfigured = ''/st/Packages/User/Jekyll.sublime-settings''"
    by (simp add: user_settings_file_def posix_join_def startswith_sep_def endswith_sep_def
        host_unconfigured_def)
  have d: "files host_unconfigured (default_settings_file host_unconfigured) = Some ''{}''"
    by (simp add: default_settings_file_def posix_join_def startswith_sep_def endswith_sep_def
        host_unconfigured_def)
  have e: "\<not> os_path_exists host_unconfigured (user_settings_file host_unconfigured)"
    unfolding u by (simp add: os_path_exists_def host_unconfigured_def)
  have s: "messages host_unconfigured = []" "commands host_unconfigured = []"
    "opened host_unconfigured = []"
    by (simp_all add: host_unconfigured_def)
  show ?thesis
    using h d e s title_input_missing_path [OF h, of "''Hello, World!''"]
    by (auto simp add: u split: prod.splits)
qed

text \<open>
  C5, as the specification states it, fails when neither the user's settings file nor the
  bundled default exists: copying the default raises inside the handler, before the
  settings file is opened, so the message is shown but no settings file is opened.
\<close>

theorem title_input_no_default_counterexample:
  "truthy (required_path False host_bare) = False
   \<and> opened (snd (title_input False ''Hello, World!'' host_bare)) = []
   \<and> files (snd (title_input False ''Hello, World!'' host_bare))
        ''/st/Packages/User/Jekyll.sublime-settings'' = None
   \<and> messages (snd (title_input False ''Hello, World!'' host_bare)) = [missing_path_message]
   \<and> fst (title_input False ''Hello, World!'' host_bare) = Inl IOError"
  by (simp add: host_eval Let_def)

text \<open>
  C6 (as amended). Every exception other than the missing-path one that a function
  wrapped by the decorator raises is caught there, printed and reported with the
  unknown-error message, and the wrapper returns None.
\<close>

theorem catch_errors_unknown:
  assumes "fn h = (Inl e, h1)" and "e \<noteq> MissingPathException"
  shows "catch_errors fn h =
           (Inr PNone,
            h1\<lparr>console := console h1 @ [e],
               messages := messages h1 @ [unknown_error_message]\<rparr>)"
  using assms
  by (simp add: catch_errors_def error_message_def print_exc_def unknown_error_message_def)

theorem catch_errors_unknown_witness:
  "raise_attribute_error host_blog = (Inl AttributeError, host_blog)
   \<and> AttributeError \<noteq> MissingPathException
   \<and> catch_errors raise_attribute_error host_blog =
       (Inr PNone,
        host_blog\<lparr>console := console host_blog @ [AttributeError],
                   messages := messages host_blog @ [unknown_error_message]\<rparr>)"
proof -
  have h1: "raise_attribute_error host_blog = (Inl AttributeError, host_blog)"
    by (simp add: raise_attribute_error_def)
  have h2: "AttributeError \<noteq> MissingPathException" by simp
  show ?thesis
    using h1 h2
      catch_errors_unknown [of raise_attribute_error host_blog AttributeError host_blog]
    by simp
qed

text \<open>
  C6, as the specification states it, fails for a request without a posts path: after the
  decorator has handled the missing path, the lookup returns None, joining the file name
  onto None raises a TypeError, and this exception leaves the command without being
  printed or reported.
\<close>

theorem title_input_escape_counterexample:
  "fst (title_input False ''Hello, World!'' host_unconfigured) = Inl TypeError
   \<and> console (snd (title_input False ''Hello, World!'' host_unconfigured)) = []
   \<and> messages (snd (title_input False ''Hello, World!'' host_unconfigured))
        = [missing_path_message]"
  by (simp add: host_eval Let_def)

section \<open>A request that succeeds\<close>

text \<open>
  For comparison with the error cases: on the configured blog a draft with a new title is
  created empty, the frontmatter command is dispatched for it, and no message is shown.
\<close>

lemma clean_hello_world:
  "clean_title_input date_2024_01_05 ''Hello, World!'' = ''2024-01-05-hello-world''"
  by (simp add: normalizer_eval)

lemma title_input_creates_draft:
  "fst (title_input True ''Hello, World!'' host_blog) = Inr ()
   \<and> files (snd (title_input True ''Hello, World!'' host_blog))
        ''/blog/_drafts/2024-01-05-hello-world.md'' = Some []
   \<and> commands (snd (title_input True ''Hello, World!'' host_blog)) =
        [(''/blog/_drafts/2024-01-05-hello-world.md'',
          ''---\<newline>layout: post\<newline>title: Hello, World!\<newline>published: True\<newline>categories: [blog]\<newline>tags: []\<newline>---\<newline>\<newline>'')]
   \<and> messages (snd (title_input True ''Hello, World!'' host_blog)) = []"
  by (simp add: host_eval clean_hello_world Let_def)

end
